theory Spec2Isabelle
  imports Main
begin

section \<open>The patent seeding pipeline of \<^verbatim>\<open>data-seeding/seed_patents.py\<close>\<close>

text \<open>
  The script searches the PatentsView API for each configured topic, fetches a summary for
  every hit, flattens the hit into a row and upserts the row into one Postgres table.
  The embedding keeps the script's functions and their names. What the script gets from
  outside (the configuration, the replies of the remote API, the faults of the database,
  Python's \<^verbatim>\<open>str()\<close> of a value that is not a string) is a field of the record
  \<open>env\<close>; what it changes (the requests it has issued, the table) is the record
  \<open>world\<close>, passed in and returned. An exception is the value \<open>Inl e\<close>.
\<close>

subsection \<open>JSON values and the Python operations the script applies to them\<close>

text \<open>
  A parsed JSON document. \<open>JNull\<close> is Python's \<^verbatim>\<open>None\<close>, \<open>JObj\<close> a \<^verbatim>\<open>dict\<close> as
  the list of its items in insertion order (keys distinct, looked up with \<open>map_of\<close>).
  Numbers are the integers (a fractional number has no place in what the script reads);
  strings are lists of 8-bit characters, taken to be ASCII.
\<close>

datatype json =
    JNull
  | JBool bool
  | JInt int
  | JStr string
  | JList "json list"
  | JObj "(string \<times> json) list"

datatype py_error = AttributeError | TypeError | KeyError | IndexError | DatabaseError

text \<open>Truth value testing: \<^verbatim>\<open>if x\<close>, \<^verbatim>\<open>not x\<close>, \<^verbatim>\<open>a or b\<close>.\<close>

definition py_truthy :: "json \<Rightarrow> bool" where
  "py_truthy v =
     (case v of
        JNull \<Rightarrow> False
      | JBool b \<Rightarrow> b
      | JInt i \<Rightarrow> i \<noteq> 0
      | JStr s \<Rightarrow> s \<noteq> []
      | JList xs \<Rightarrow> xs \<noteq> []
      | JObj kvs \<Rightarrow> kvs \<noteq> [])"

text \<open>\<^verbatim>\<open>d.get(k, default)\<close> on a dict.\<close>

definition dict_get :: "(string \<times> json) list \<Rightarrow> string \<Rightarrow> json \<Rightarrow> json" where
  "dict_get kvs k dflt = (case map_of kvs k of None \<Rightarrow> dflt | Some v \<Rightarrow> v)"

text \<open>
  \<^verbatim>\<open>x[0]\<close>: the first element of a list, the first character of a string; a dict parsed
  from JSON has string keys only, so the key \<^verbatim>\<open>0\<close> is missing; the other values are not
  subscriptable.
\<close>

definition py_item0 :: "json \<Rightarrow> py_error + json" where
  "py_item0 v =
     (case v of
        JList xs \<Rightarrow> (case xs of [] \<Rightarrow> Inl IndexError | x # _ \<Rightarrow> Inr x)
      | JStr s \<Rightarrow> (case s of [] \<Rightarrow> Inl IndexError | c # _ \<Rightarrow> Inr (JStr [c]))
      | JObj _ \<Rightarrow> Inl KeyError
      | _ \<Rightarrow> Inl TypeError)"

text \<open>\<^verbatim>\<open>for x in v\<close>: a list yields its elements, a string its characters, a dict its keys.\<close>

definition py_iter :: "json \<Rightarrow> py_error + json list" where
  "py_iter v =
     (case v of
        JList xs \<Rightarrow> Inr xs
      | JStr s \<Rightarrow> Inr (map (\<lambda>c. JStr [c]) s)
      | JObj kvs \<Rightarrow> Inr (map (\<lambda>kv. JStr (fst kv)) kvs)
      | _ \<Rightarrow> Inl TypeError)"

text \<open>\<^verbatim>\<open>len(v)\<close>.\<close>

definition py_len :: "json \<Rightarrow> py_error + int" where
  "py_len v =
     (case v of
        JList xs \<Rightarrow> Inr (int (length xs))
      | JStr s \<Rightarrow> Inr (int (length s))
      | JObj kvs \<Rightarrow> Inr (int (length kvs))
      | _ \<Rightarrow> Inl TypeError)"

text \<open>
  \<^verbatim>\<open>v[:60]\<close>: a string and a list can be sliced, nothing else can (a dict raises
  \<^verbatim>\<open>TypeError\<close> before Python 3.12 and \<^verbatim>\<open>KeyError\<close> from 3.12 on; the model takes the former).
\<close>

definition py_slice_to :: "nat \<Rightarrow> json \<Rightarrow> py_error + json" where
  "py_slice_to n v =
     (case v of
        JStr s \<Rightarrow> Inr (JStr (take n s))
      | JList xs \<Rightarrow> Inr (JList (take n xs))
      | _ \<Rightarrow> Inl TypeError)"

text \<open>
  \<^verbatim>\<open>f"{v}"\<close>: a string is inserted as it is and \<^verbatim>\<open>None\<close> as the text \<^verbatim>\<open>None\<close>; the
  text of any other value is Python's \<^verbatim>\<open>str(v)\<close>, the parameter \<open>str\<close>.
\<close>

definition py_format :: "(json \<Rightarrow> string) \<Rightarrow> json \<Rightarrow> string" where
  "py_format str v = (case v of JStr s \<Rightarrow> s | JNull \<Rightarrow> ''None'' | _ \<Rightarrow> str v)"

text \<open>\<^verbatim>\<open>s.strip()\<close>, on the whitespace characters of ASCII.\<close>

definition py_isspace :: "char \<Rightarrow> bool" where
  "py_isspace c =
     (c \<in> set [CHR 0x09, CHR 0x0A, CHR 0x0B, CHR 0x0C, CHR 0x0D,
                CHR 0x1C, CHR 0x1D, CHR 0x1E, CHR 0x1F, CHR 0x20])"

definition py_strip :: "string \<Rightarrow> string" where
  "py_strip s = rev (dropWhile py_isspace (rev (dropWhile py_isspace s)))"

subsection \<open>Configuration, the outside world and the state\<close>

text \<open>An entry of \<^verbatim>\<open>config["search_topics"]\<close>.\<close>

record topic_config =
  name :: string
  query :: string
  max_patents :: int

text \<open>
  A GET request: the URL and the query parameters, each parameter as the JSON value
  that \<^verbatim>\<open>json.dumps\<close> writes out.
\<close>

datatype request = Request string "(string \<times> json) list"

text \<open>
  What \<^verbatim>\<open>rate_limited_request\<close> followed by \<^verbatim>\<open>response.json()\<close> gives: the parsed
  body, or a \<^verbatim>\<open>requests.exceptions.RequestException\<close> (connection error, timeout, or the
  \<^verbatim>\<open>HTTPError\<close> that \<^verbatim>\<open>raise_for_status\<close> raises on a status that is not a success).
  A body that is not JSON is left out: which error \<^verbatim>\<open>response.json()\<close> raises for it
  depends on the version of \<^verbatim>\<open>requests\<close>.
\<close>

datatype http_result = Response json | RequestException

text \<open>
  What the database does to one transaction of the connection: nothing wrong, an error
  raised by \<^verbatim>\<open>cursor.execute\<close>, or an error raised by \<^verbatim>\<open>conn.commit\<close>.
\<close>

datatype db_fault = NoFault | ExecuteFault | CommitFault

text \<open>
  The row of the table \<^verbatim>\<open>patents\<close>, which is also the dict \<^verbatim>\<open>patent_data\<close> bound to
  the statement's named parameters. The two keys that \<^verbatim>\<open>extract_patent_metadata\<close> does
  not set are \<open>None\<close> until the caller sets them. The \<^verbatim>\<open>Json\<close> wrapper of psycopg2
  writes a value out as JSON; the row holds the value itself.
\<close>

record patent_data =
  patent_id :: json
  patent_title :: json
  patent_date :: json
  summary_text :: "json option"
  assignee_organization :: json
  assignee_country :: json
  assignee_type :: json
  cpc_groups :: "json list"
  wipo_field_id :: json
  inventor_count :: int
  inventor_names :: "string list"
  raw_data :: json
  search_topic :: "string option"

text \<open>
  The environment. \<open>api k r\<close> is the outcome of the request \<open>r\<close> when it is the
  \<open>k\<close>-th one the run issues (counted from 0), \<open>db_fault k\<close> the fate of the \<open>k\<close>-th
  transaction of the connection.
\<close>

record env =
  base_url :: string
  min_patent_date :: json
  search_topics :: "topic_config list"
  api :: "nat \<Rightarrow> request \<Rightarrow> http_result"
  db_fault :: "nat \<Rightarrow> db_fault"
  py_str :: "json \<Rightarrow> string"

text \<open>
  The state: the requests issued so far, the table as the open transaction sees it
  (\<open>working\<close>), the table as committed, and the number of transactions ended so far by
  a commit or a rollback.
\<close>

record world =
  sent :: "request list"
  working :: "patent_data list"
  committed :: "patent_data list"
  txn :: nat

subsection \<open>The API client\<close>

text \<open>
  \<^verbatim>\<open>rate_limited_request\<close>: one call of the remote API. The pacing that the decorators
  of the \<^verbatim>\<open>ratelimit\<close> package add is a delay and is not part of the model.
\<close>

definition rate_limited_request :: "env \<Rightarrow> request \<Rightarrow> world \<Rightarrow> http_result \<times> world" where
  "rate_limited_request e r w = (api e (length (sent w)) r, w\<lparr>sent := sent w @ [r]\<rparr>)"

definition search_request :: "env \<Rightarrow> string \<Rightarrow> int \<Rightarrow> request" where
  "search_request e q max_results =
     Request (base_url e @ ''/patent/'')
       [(''q'', JObj [(''_and'',
                  JList [JObj [(''_text_phrase'', JObj [(''patent_title'', JStr q)])],
                         JObj [(''_gte'', JObj [(''patent_date'', min_patent_date e)])]])]),
        (''f'', JList [JStr ''patent_id'', JStr ''patent_title'', JStr ''patent_date'',
                  JStr ''assignees'', JStr ''cpc_current'', JStr ''inventors'', JStr ''wipo'']),
        (''o'', JObj [(''size'', JInt (min max_results 1000)), (''page'', JInt 1)])]"

text \<open>
  \<^verbatim>\<open>search_patents\<close>. Only a \<^verbatim>\<open>RequestException\<close> is caught: a body that is not an
  object has no \<^verbatim>\<open>get\<close>, and the progress line takes \<^verbatim>\<open>len(patents)\<close>, an error when
  the body's \<^verbatim>\<open>patents\<close> is null or a number.
\<close>

definition search_patents ::
  "env \<Rightarrow> string \<Rightarrow> int \<Rightarrow> world \<Rightarrow> (py_error + json) \<times> world" where
  "search_patents e q max_results w =
     (case rate_limited_request e (search_request e q max_results) w of
        (RequestException, w1) \<Rightarrow> (Inr (JList []), w1)
      | (Response data, w1) \<Rightarrow>
          (case data of
             JObj kvs \<Rightarrow>
               if py_truthy (dict_get kvs ''error'' (JBool True)) then (Inr (JList []), w1)
               else (case py_len (dict_get kvs ''patents'' (JList [])) of
                       Inl err \<Rightarrow> (Inl err, w1)
                     | Inr _ \<Rightarrow> (Inr (dict_get kvs ''patents'' (JList [])), w1))
           | _ \<Rightarrow> (Inl AttributeError, w1)))"

definition summary_request :: "env \<Rightarrow> json \<Rightarrow> request" where
  "summary_request e pid =
     Request (base_url e @ ''/g_brf_sum_text/'') [(''q'', JObj [(''patent_id'', pid)])]"

text \<open>
  \<^verbatim>\<open>fetch_patent_summary\<close>: the \<^verbatim>\<open>summary_text\<close> of the first entry of
  \<^verbatim>\<open>g_brf_sum_texts\<close>, \<^verbatim>\<open>None\<close> when the request fails, the error flag is true or the
  list is missing or empty.
\<close>

definition fetch_patent_summary :: "env \<Rightarrow> json \<Rightarrow> world \<Rightarrow> (py_error + json) \<times> world" where
  "fetch_patent_summary e pid w =
     (case rate_limited_request e (summary_request e pid) w of
        (RequestException, w1) \<Rightarrow> (Inr JNull, w1)
      | (Response data, w1) \<Rightarrow>
          (case data of
             JObj kvs \<Rightarrow>
               if py_truthy (dict_get kvs ''error'' (JBool True))
                  \<or> \<not> py_truthy (dict_get kvs ''g_brf_sum_texts'' JNull)
               then (Inr JNull, w1)
               else (case py_item0 (dict_get kvs ''g_brf_sum_texts'' JNull) of
                       Inl err \<Rightarrow> (Inl err, w1)
                     | Inr first \<Rightarrow>
                         (case first of
                            JObj item \<Rightarrow> (Inr (dict_get item ''summary_text'' JNull), w1)
                          | _ \<Rightarrow> (Inl AttributeError, w1)))
           | _ \<Rightarrow> (Inl AttributeError, w1)))"

subsection \<open>The metadata normalizer\<close>

text \<open>
  The comprehension over \<^verbatim>\<open>patent.get("cpc_current", [])\<close>: every entry is asked for
  its \<^verbatim>\<open>cpc_group_id\<close> (an entry that is not a dict has no \<^verbatim>\<open>get\<close>), and the values
  that are true are kept, in order.
\<close>

fun cpc_group_ids :: "json list \<Rightarrow> py_error + json list" where
  "cpc_group_ids [] = Inr []"
| "cpc_group_ids (cpc # rest) =
     (case cpc of
        JObj kvs \<Rightarrow>
          (case cpc_group_ids rest of
             Inl err \<Rightarrow> Inl err
           | Inr ids \<Rightarrow>
               Inr (if py_truthy (dict_get kvs ''cpc_group_id'' JNull)
                    then dict_get kvs ''cpc_group_id'' JNull # ids
                    else ids))
      | _ \<Rightarrow> Inl AttributeError)"

text \<open>The comprehension over the inventors: one name for every entry.\<close>

fun inventor_names_of :: "(json \<Rightarrow> string) \<Rightarrow> json list \<Rightarrow> py_error + string list" where
  "inventor_names_of str [] = Inr []"
| "inventor_names_of str (inventor # rest) =
     (case inventor of
        JObj kvs \<Rightarrow>
          (case inventor_names_of str rest of
             Inl err \<Rightarrow> Inl err
           | Inr names \<Rightarrow>
               Inr (py_strip (py_format str (dict_get kvs ''inventor_name_first'' (JStr []))
                              @ '' ''
                              @ py_format str (dict_get kvs ''inventor_name_last'' (JStr [])))
                    # names))
      | _ \<Rightarrow> Inl AttributeError)"

text \<open>\<^verbatim>\<open>xs[0] if xs else {}\<close>.\<close>

definition first_or_empty :: "json \<Rightarrow> py_error + json" where
  "first_or_empty xs = (if py_truthy xs then py_item0 xs else Inr (JObj []))"

text \<open>\<^verbatim>\<open>wipo_fields[0].get("wipo_field_id") if wipo_fields else None\<close>.\<close>

definition first_wipo_field_id :: "json \<Rightarrow> py_error + json" where
  "first_wipo_field_id wipo_fields =
     (if py_truthy wipo_fields
      then (case py_item0 wipo_fields of
              Inl err \<Rightarrow> Inl err
            | Inr f \<Rightarrow>
                (case f of
                   JObj fk \<Rightarrow> Inr (dict_get fk ''wipo_field_id'' JNull)
                 | _ \<Rightarrow> Inl AttributeError))
      else Inr JNull)"

definition extract_patent_metadata :: "(json \<Rightarrow> string) \<Rightarrow> json \<Rightarrow> py_error + patent_data" where
  "extract_patent_metadata str patent =
     (case patent of
        JObj kvs \<Rightarrow>
          (case first_or_empty (dict_get kvs ''assignees'' (JList [])) of
             Inl err \<Rightarrow> Inl err
           | Inr first_assignee \<Rightarrow>
          (case py_iter (dict_get kvs ''cpc_current'' (JList [])) of
             Inl err \<Rightarrow> Inl err
           | Inr cpcs \<Rightarrow>
          (case cpc_group_ids cpcs of
             Inl err \<Rightarrow> Inl err
           | Inr groups \<Rightarrow>
          (case first_wipo_field_id (dict_get kvs ''wipo'' (JList [])) of
             Inl err \<Rightarrow> Inl err
           | Inr wipo_id \<Rightarrow>
          (case py_iter (dict_get kvs ''inventors'' (JList [])) of
             Inl err \<Rightarrow> Inl err
           | Inr invs \<Rightarrow>
          (case inventor_names_of str invs of
             Inl err \<Rightarrow> Inl err
           | Inr names \<Rightarrow>
          (case first_assignee of
             JObj fa \<Rightarrow>
               (case py_len (dict_get kvs ''inventors'' (JList [])) of
                  Inl err \<Rightarrow> Inl err
                | Inr n \<Rightarrow>
                    Inr \<lparr>patent_id = dict_get kvs ''patent_id'' JNull,
                         patent_title = dict_get kvs ''patent_title'' JNull,
                         patent_date = dict_get kvs ''patent_date'' JNull,
                         summary_text = None,
                         assignee_organization = dict_get fa ''assignee_organization'' JNull,
                         assignee_country = dict_get fa ''assignee_country'' JNull,
                         assignee_type = dict_get fa ''assignee_type'' JNull,
                         cpc_groups = groups,
                         wipo_field_id = wipo_id,
                         inventor_count = n,
                         inventor_names = names,
                         raw_data = patent,
                         search_topic = None\<rparr>)
           | _ \<Rightarrow> Inl AttributeError)))))))
      | _ \<Rightarrow> Inl AttributeError)"

subsection \<open>The storage upserter\<close>

text \<open>
  The statement of \<^verbatim>\<open>insert_patent\<close>, when the database accepts it:
  \<^verbatim>\<open>INSERT INTO patents (...) VALUES (...) ON CONFLICT (patent_id) DO UPDATE SET
  summary_text = EXCLUDED.summary_text, search_topic = EXCLUDED.search_topic\<close>.
  A row conflicts with the new one when it has the same \<^verbatim>\<open>patent_id\<close>; SQL's \<^verbatim>\<open>NULL\<close>
  equals nothing, so a new row without an identifier conflicts with none.
\<close>

definition execute_upsert :: "patent_data \<Rightarrow> patent_data list \<Rightarrow> patent_data list" where
  "execute_upsert r t =
     (if patent_id r \<noteq> JNull \<and> (\<exists>x\<in>set t. patent_id x = patent_id r)
      then map (\<lambda>x. if patent_id x = patent_id r
                     then x\<lparr>summary_text := summary_text r, search_topic := search_topic r\<rparr>
                     else x) t
      else t @ [r])"

text \<open>
  \<^verbatim>\<open>insert_patent(cursor, patent_data, search_topic)\<close>. The statement names the parameter
  \<^verbatim>\<open>summary_text\<close>, which the caller must have put into the dict; a missing one is a
  \<^verbatim>\<open>KeyError\<close> of \<^verbatim>\<open>execute\<close>.
\<close>

definition insert_patent ::
  "env \<Rightarrow> patent_data \<Rightarrow> string \<Rightarrow> world \<Rightarrow> (py_error + unit) \<times> world" where
  "insert_patent e d topic w =
     (let d1 = d\<lparr>search_topic := Some topic\<rparr> in
      case summary_text d1 of
        None \<Rightarrow> (Inl KeyError, w)
      | Some _ \<Rightarrow>
          if db_fault e (txn w) = ExecuteFault then (Inl DatabaseError, w)
          else (Inr (), w\<lparr>working := execute_upsert d1 (working w)\<rparr>))"

text \<open>
  \<^verbatim>\<open>conn.commit()\<close> and \<^verbatim>\<open>conn.rollback()\<close>. A commit makes the working table the
  committed one, a rollback discards what the transaction did; either ends the
  transaction. The rollback, \<^verbatim>\<open>conn.cursor()\<close> and \<^verbatim>\<open>cursor.close()\<close> are taken to succeed.
\<close>

definition conn_commit :: "env \<Rightarrow> world \<Rightarrow> (py_error + unit) \<times> world" where
  "conn_commit e w =
     (if db_fault e (txn w) = CommitFault then (Inl DatabaseError, w)
      else (Inr (), w\<lparr>committed := working w, txn := Suc (txn w)\<rparr>))"

definition conn_rollback :: "world \<Rightarrow> world" where
  "conn_rollback w = w\<lparr>working := committed w, txn := Suc (txn w)\<rparr>"

subsection \<open>The topic processor and the run\<close>

text \<open>
  The body of the loop of \<^verbatim>\<open>process_topic\<close> for one hit. The result says whether the
  counter is incremented. The progress lines are not modelled, the errors raised while
  they are formatted (\<^verbatim>\<open>patent_title[:60]\<close>, \<^verbatim>\<open>len(summary_text)\<close>) are.
\<close>

definition process_patent ::
  "env \<Rightarrow> string \<Rightarrow> json \<Rightarrow> world \<Rightarrow> (py_error + bool) \<times> world" where
  "process_patent e topic_name patent w =
     (case patent of
        JObj kvs \<Rightarrow>
          (case py_slice_to 60 (dict_get kvs ''patent_title'' (JStr ''No title'')) of
             Inl err \<Rightarrow> (Inl err, w)
           | Inr _ \<Rightarrow>
          (case extract_patent_metadata (py_str e) patent of
             Inl err \<Rightarrow> (Inl err, w)
           | Inr d \<Rightarrow>
          (case fetch_patent_summary e (dict_get kvs ''patent_id'' JNull) w of
             (Inl err, w1) \<Rightarrow> (Inl err, w1)
           | (Inr summary, w1) \<Rightarrow>
          (case (if py_truthy summary then py_len summary else Inr 0) of
             Inl err \<Rightarrow> (Inl err, w1)
           | Inr _ \<Rightarrow>
          (case insert_patent e (d\<lparr>summary_text := Some summary\<rparr>) topic_name w1 of
             (Inl _, w2) \<Rightarrow> (Inr False, conn_rollback w2)
           | (Inr _, w2) \<Rightarrow>
          (case conn_commit e w2 of
             (Inl _, w3) \<Rightarrow> (Inr False, conn_rollback w3)
           | (Inr _, w3) \<Rightarrow> (Inr True, w3)))))))
      | _ \<Rightarrow> (Inl AttributeError, w))"

text \<open>The loop over the hits, with the running \<^verbatim>\<open>inserted_count\<close>.\<close>

fun process_patents ::
  "env \<Rightarrow> string \<Rightarrow> json list \<Rightarrow> int \<Rightarrow> world \<Rightarrow> (py_error + int) \<times> world" where
  "process_patents e topic_name [] inserted_count w = (Inr inserted_count, w)"
| "process_patents e topic_name (patent # rest) inserted_count w =
     (case process_patent e topic_name patent w of
        (Inl err, w1) \<Rightarrow> (Inl err, w1)
      | (Inr ok, w1) \<Rightarrow>
          process_patents e topic_name rest
            (if ok then inserted_count + 1 else inserted_count) w1)"

definition process_topic ::
  "env \<Rightarrow> topic_config \<Rightarrow> world \<Rightarrow> (py_error + int) \<times> world" where
  "process_topic e topic w =
     (case search_patents e (query topic) (max_patents topic) w of
        (Inl err, w1) \<Rightarrow> (Inl err, w1)
      | (Inr patents, w1) \<Rightarrow>
          if \<not> py_truthy patents then (Inr 0, w1)
          else (case py_iter patents of
                  Inl err \<Rightarrow> (Inl err, w1)
                | Inr hits \<Rightarrow> process_patents e (name topic) hits 0 w1))"

text \<open>The loop of \<^verbatim>\<open>main\<close> over the topics, with the running \<^verbatim>\<open>total_inserted\<close>.\<close>

fun main_loop ::
  "env \<Rightarrow> topic_config list \<Rightarrow> int \<Rightarrow> world \<Rightarrow> (py_error + int) \<times> world" where
  "main_loop e [] total_inserted w = (Inr total_inserted, w)"
| "main_loop e (topic # rest) total_inserted w =
     (case process_topic e topic w of
        (Inl err, w1) \<Rightarrow> (Inl err, w1)
      | (Inr inserted, w1) \<Rightarrow> main_loop e rest (total_inserted + inserted) w1)"

definition main :: "env \<Rightarrow> world \<Rightarrow> (py_error + int) \<times> world" where
  "main e w = main_loop e (search_topics e) 0 w"

subsection \<open>Notions the properties are stated with\<close>

text \<open>
  One part of an inventor's name as the normalizer reads it: the empty string when the
  entry has no such key, the text of the value otherwise.
\<close>

definition name_part :: "(json \<Rightarrow> string) \<Rightarrow> (string \<times> json) list \<Rightarrow> string \<Rightarrow> string" where
  "name_part str kvs k = (case map_of kvs k of None \<Rightarrow> [] | Some v \<Rightarrow> py_format str v)"

text \<open>The name of an inventor entry, from its two parts.\<close>

definition full_name :: "(json \<Rightarrow> string) \<Rightarrow> json \<Rightarrow> string" where
  "full_name str inventor =
     (case inventor of
        JObj kvs \<Rightarrow> py_strip (name_part str kvs ''inventor_name_first'' @ '' ''
                               @ name_part str kvs ''inventor_name_last'')
      | _ \<Rightarrow> [])"

text \<open>The identifier of a hit.\<close>

definition hit_id :: "json \<Rightarrow> json" where
  "hit_id p = (case p of JObj kvs \<Rightarrow> dict_get kvs ''patent_id'' JNull | _ \<Rightarrow> JNull)"

text \<open>
  A hit of the shape the search endpoint documents: an object whose title, when it has
  one, is a string, and whose nested fields, when it has them, are lists of objects.
\<close>

definition is_obj :: "json \<Rightarrow> bool" where
  "is_obj v = (case v of JObj _ \<Rightarrow> True | _ \<Rightarrow> False)"

definition objs_or_missing :: "json option \<Rightarrow> bool" where
  "objs_or_missing x =
     (case x of
        None \<Rightarrow> True
      | Some v \<Rightarrow> (case v of JList xs \<Rightarrow> list_all is_obj xs | _ \<Rightarrow> False))"

definition title_ok :: "json option \<Rightarrow> bool" where
  "title_ok x =
     (case x of
        None \<Rightarrow> True
      | Some v \<Rightarrow> (case v of JStr _ \<Rightarrow> True | _ \<Rightarrow> False))"

definition hit_ok :: "json \<Rightarrow> bool" where
  "hit_ok p =
     (case p of
        JObj kvs \<Rightarrow>
          title_ok (map_of kvs ''patent_title'')
          \<and> objs_or_missing (map_of kvs ''assignees'')
          \<and> objs_or_missing (map_of kvs ''cpc_current'')
          \<and> objs_or_missing (map_of kvs ''wipo'')
          \<and> objs_or_missing (map_of kvs ''inventors'')
      | _ \<Rightarrow> False)"

text \<open>
  A reply of the summary endpoint of the documented shape: a transport failure, or an
  object whose list of summaries, when it has one, is a list of objects, the summary text
  of the first being a string, null or missing.
\<close>

definition text_or_null :: "json \<Rightarrow> bool" where
  "text_or_null v = (case v of JNull \<Rightarrow> True | JStr _ \<Rightarrow> True | _ \<Rightarrow> False)"

definition first_text_ok :: "json \<Rightarrow> bool" where
  "first_text_ok v =
     (case py_item0 v of
        Inl _ \<Rightarrow> True
      | Inr first \<Rightarrow>
          (case first of
             JObj item \<Rightarrow> text_or_null (dict_get item ''summary_text'' JNull)
           | _ \<Rightarrow> True))"

definition reply_ok :: "http_result \<Rightarrow> bool" where
  "reply_ok r =
     (case r of
        RequestException \<Rightarrow> True
      | Response data \<Rightarrow>
          (case data of
             JObj kvs \<Rightarrow>
               objs_or_missing (map_of kvs ''g_brf_sum_texts'')
               \<and> first_text_ok (dict_get kvs ''g_brf_sum_texts'' JNull)
           | _ \<Rightarrow> False))"

text \<open>
  The hits of a topic that end up stored, when the first of them runs in the transaction
  \<open>t\<close> of the connection and each one after it in the next transaction: those whose
  transaction the database does not fault.
\<close>

definition stored_hits :: "env \<Rightarrow> nat \<Rightarrow> json list \<Rightarrow> json list" where
  "stored_hits e t hits =
     map fst (filter (\<lambda>pk. db_fault e (snd pk) = NoFault) (zip hits [t ..< t + length hits]))"

text \<open>
  The topics processed one after the other, in the order of the list, each starting in
  the state the one before it left: the list of the counts they return, or the first
  error raised.
\<close>

fun process_all ::
  "env \<Rightarrow> topic_config list \<Rightarrow> world \<Rightarrow> (py_error + int list) \<times> world" where
  "process_all e [] w = (Inr [], w)"
| "process_all e (topic # rest) w =
     (case process_topic e topic w of
        (Inl err, w1) \<Rightarrow> (Inl err, w1)
      | (Inr n, w1) \<Rightarrow>
          (case process_all e rest w1 of
             (Inl err, w2) \<Rightarrow> (Inl err, w2)
           | (Inr ns, w2) \<Rightarrow> (Inr (n # ns), w2)))"

subsection \<open>Sample environments\<close>

text \<open>
  An environment with the given replies and faults, and the state of a fresh run: nothing
  sent, an empty table.
\<close>

definition env0 :: "(nat \<Rightarrow> request \<Rightarrow> http_result) \<Rightarrow> (nat \<Rightarrow> db_fault) \<Rightarrow> env" where
  "env0 replies faults =
     \<lparr>base_url = ''https://search.patentsview.org/api/v1'',
      min_patent_date = JStr ''2020-01-01'',
      search_topics = [],
      api = replies,
      db_fault = faults,
      py_str = (\<lambda>_. [])\<rparr>"

definition world0 :: world where
  "world0 = \<lparr>sent = [], working = [], committed = [], txn = 0\<rparr>"

definition reply_always :: "json \<Rightarrow> nat \<Rightarrow> request \<Rightarrow> http_result" where
  "reply_always body k r = Response body"

definition no_fault :: "nat \<Rightarrow> db_fault" where
  "no_fault k = NoFault"

text \<open>
  A hit as the search endpoint returns it, the replies of a run whose search finds two
  hits (a summary for the first, none for the second, and a failing request afterwards),
  and two topics.
\<close>

definition sample_hit :: "string \<Rightarrow> json" where
  "sample_hit pid =
     JObj [(''patent_id'', JStr pid), (''patent_title'', JStr ''Solar panel mount''),
           (''patent_date'', JStr ''2021-05-04''), (''assignees'', JList []),
           (''inventors'', JList [JObj [(''inventor_name_first'', JStr ''First'')]])]"

definition two_hit_api :: "nat \<Rightarrow> request \<Rightarrow> http_result" where
  "two_hit_api k r =
     (if k = 0 then
        Response (JObj [(''error'', JBool False),
                        (''patents'', JList [sample_hit ''P1'', sample_hit ''P2'']),
                        (''total_hits'', JInt 2)])
      else if k = 1 then
        Response (JObj [(''error'', JBool False),
                        (''g_brf_sum_texts'', JList [JObj [(''summary_text'', JStr ''Text A'')]])])
      else if k = 2 then
        Response (JObj [(''error'', JBool False), (''g_brf_sum_texts'', JList [])])
      else RequestException)"

definition solar :: topic_config where
  "solar = \<lparr>name = ''solar'', query = ''solar panel'', max_patents = 2\<rparr>"

definition wind :: topic_config where
  "wind = \<lparr>name = ''wind'', query = ''wind turbine'', max_patents = 5\<rparr>"

text \<open>
  A row as stored, a row with the same identifier as fetched again later, and a state
  whose table holds the stored row.
\<close>

definition stored_row :: patent_data where
  "stored_row =
     \<lparr>patent_id = JStr ''P1'',
      patent_title = JStr ''Solar panel mount'',
      patent_date = JStr ''2021-05-04'',
      summary_text = Some JNull,
      assignee_organization = JStr ''Acme Solar'',
      assignee_country = JStr ''US'',
      assignee_type = JStr ''2'',
      cpc_groups = [JStr ''H02S20/30''],
      wipo_field_id = JStr ''1'',
      inventor_count = 1,
      inventor_names = [''Ada Lovelace''],
      raw_data = JObj [(''patent_id'', JStr ''P1''), (''patent_title'', JStr ''Solar panel mount'')],
      search_topic = Some ''solar''\<rparr>"

definition refetched_row :: patent_data where
  "refetched_row =
     \<lparr>patent_id = JStr ''P1'',
      patent_title = JStr ''Roof mount for solar panels'',
      patent_date = JStr ''2021-05-05'',
      summary_text = Some (JStr ''Text A''),
      assignee_organization = JNull,
      assignee_country = JNull,
      assignee_type = JNull,
      cpc_groups = [],
      wipo_field_id = JNull,
      inventor_count = 0,
      inventor_names = [],
      raw_data = JObj [(''patent_id'', JStr ''P1'')],
      search_topic = None\<rparr>"

definition one_row_world :: world where
  "one_row_world = \<lparr>sent = [], working = [stored_row], committed = [stored_row], txn = 0\<rparr>"

text \<open>
  The replies of a run whose search finds three hits, each with a summary, and a
  database that rejects the statement of its second transaction.
\<close>

definition three_hit_api :: "nat \<Rightarrow> request \<Rightarrow> http_result" where
  "three_hit_api k r =
     (if k = 0 then
        Response (JObj [(''error'', JBool False),
                        (''patents'', JList [sample_hit ''P1'', sample_hit ''P2'', sample_hit ''P3'']),
                        (''total_hits'', JInt 3)])
      else
        Response (JObj [(''error'', JBool False),
                        (''g_brf_sum_texts'', JList [JObj [(''summary_text'', JStr ''Text A'')]])]))"

definition second_fails :: "nat \<Rightarrow> db_fault" where
  "second_fails k = (if k = 1 then ExecuteFault else NoFault)"

section \<open>Properties\<close>

subsection \<open>The API client\<close>

text \<open>
  C5. \<open>search_patents\<close> returns the empty list, and raises nothing, when the request
  fails in transport (connection error, timeout, a status that is not a success) and
  when the body is an object whose \<^verbatim>\<open>error\<close> flag is set. The request is issued once.
\<close>

theorem search_patents_failure_empty:
  assumes "api e (length (sent w)) (search_request e q m) = RequestException
           \<or> (\<exists>body flag. api e (length (sent w)) (search_request e q m) = Response (JObj body)
                 \<and> map_of body ''error'' = Some flag \<and> py_truthy flag)"
  shows "search_patents e q m w = (Inr (JList []), w\<lparr>sent := sent w @ [search_request e q m]\<rparr>)"
  using assms by (auto simp: search_patents_def rate_limited_request_def dict_get_def)

theorem search_patents_failure_empty_witness:
  "search_patents (env0 (\<lambda>k r. RequestException) no_fault) ''solar panel'' 2 world0
     = (Inr (JList []),
        world0\<lparr>sent := [search_request (env0 (\<lambda>k r. RequestException) no_fault) ''solar panel'' 2]\<rparr>)
   \<and> search_patents
        (env0 (reply_always (JObj [(''error'', JBool True), (''patents'', JList [JObj []])])) no_fault)
        ''solar panel'' 2 world0
     = (Inr (JList []),
        world0\<lparr>sent := [search_request
            (env0 (reply_always (JObj [(''error'', JBool True), (''patents'', JList [JObj []])])) no_fault)
            ''solar panel'' 2]\<rparr>)"
  using
    search_patents_failure_empty
      [of "env0 (\<lambda>k r. RequestException) no_fault" world0 "''solar panel''" 2]
    search_patents_failure_empty
      [of "env0 (reply_always (JObj [(''error'', JBool True), (''patents'', JList [JObj []])])) no_fault"
          world0 "''solar panel''" 2]
  by (simp add: env0_def reply_always_def world0_def py_truthy_def)

text \<open>
  C6. \<open>fetch_patent_summary\<close> returns \<^verbatim>\<open>None\<close>, and raises nothing, on a transport
  failure, on a body whose \<^verbatim>\<open>error\<close> flag is set, and on a body without summaries (no
  list, or an empty one); on a body whose list of summaries starts with an object it
  returns the \<^verbatim>\<open>summary_text\<close> of that first object (\<^verbatim>\<open>None\<close> if it has none).
\<close>

theorem fetch_patent_summary_first_or_absent:
  assumes "api e (length (sent w)) (summary_request e pid) = r"
  shows "(r = RequestException \<longrightarrow> fst (fetch_patent_summary e pid w) = Inr JNull)
       \<and> (\<forall>body flag. r = Response (JObj body) \<and> map_of body ''error'' = Some flag \<and> py_truthy flag
            \<longrightarrow> fst (fetch_patent_summary e pid w) = Inr JNull)
       \<and> (\<forall>body flag. r = Response (JObj body) \<and> map_of body ''error'' = Some flag \<and> \<not> py_truthy flag
              \<and> (map_of body ''g_brf_sum_texts'' = None \<or> map_of body ''g_brf_sum_texts'' = Some (JList []))
            \<longrightarrow> fst (fetch_patent_summary e pid w) = Inr JNull)
       \<and> (\<forall>body flag item rest. r = Response (JObj body) \<and> map_of body ''error'' = Some flag \<and> \<not> py_truthy flag
              \<and> map_of body ''g_brf_sum_texts'' = Some (JList (JObj item # rest))
            \<longrightarrow> fst (fetch_patent_summary e pid w)
                  = Inr (case map_of item ''summary_text'' of None \<Rightarrow> JNull | Some s \<Rightarrow> s))"
  using assms
  by (auto simp: fetch_patent_summary_def rate_limited_request_def dict_get_def py_truthy_def py_item0_def)

theorem fetch_patent_summary_first_or_absent_witness:
  "fst (fetch_patent_summary (env0 (\<lambda>k r. RequestException) no_fault) (JStr ''P1'') world0) = Inr JNull
   \<and> fst (fetch_patent_summary
            (env0 (reply_always (JObj [(''error'', JBool True),
                     (''g_brf_sum_texts'', JList [JObj [(''summary_text'', JStr ''Text A'')]])])) no_fault)
            (JStr ''P1'') world0) = Inr JNull
   \<and> fst (fetch_patent_summary
            (env0 (reply_always (JObj [(''error'', JBool False), (''g_brf_sum_texts'', JList [])])) no_fault)
            (JStr ''P2'') world0) = Inr JNull
   \<and> fst (fetch_patent_summary
            (env0 (reply_always (JObj [(''error'', JBool False),
                     (''g_brf_sum_texts'', JList [JObj [(''summary_text'', JStr ''Text A'')],
                                                   JObj [(''summary_text'', JStr ''Text B'')]])])) no_fault)
            (JStr ''P1'') world0) = Inr (JStr ''Text A'')"
  using
    fetch_patent_summary_first_or_absent
      [of "env0 (\<lambda>k r. RequestException) no_fault" world0 "JStr ''P1''" RequestException]
    fetch_patent_summary_first_or_absent
      [of "env0 (reply_always (JObj [(''error'', JBool True),
                     (''g_brf_sum_texts'', JList [JObj [(''summary_text'', JStr ''Text A'')]])])) no_fault"
          world0 "JStr ''P1''"
          "Response (JObj [(''error'', JBool True),
                     (''g_brf_sum_texts'', JList [JObj [(''summary_text'', JStr ''Text A'')]])])"]
    fetch_patent_summary_first_or_absent
      [of "env0 (reply_always (JObj [(''error'', JBool False), (''g_brf_sum_texts'', JList [])])) no_fault"
          world0 "JStr ''P2''"
          "Response (JObj [(''error'', JBool False), (''g_brf_sum_texts'', JList [])])"]
    fetch_patent_summary_first_or_absent
      [of "env0 (reply_always (JObj [(''error'', JBool False),
                     (''g_brf_sum_texts'', JList [JObj [(''summary_text'', JStr ''Text A'')],
                                                   JObj [(''summary_text'', JStr ''Text B'')]])])) no_fault"
          world0 "JStr ''P1''"
          "Response (JObj [(''error'', JBool False),
                     (''g_brf_sum_texts'', JList [JObj [(''summary_text'', JStr ''Text A'')],
                                                   JObj [(''summary_text'', JStr ''Text B'')]])])"]
  by (simp add: env0_def reply_always_def world0_def py_truthy_def)

text \<open>
  C10. A body that is an object without any \<^verbatim>\<open>error\<close> key counts as an error, the
  default of the flag being \<^verbatim>\<open>True\<close>: \<open>search_patents\<close> returns the empty list and
  \<open>fetch_patent_summary\<close> returns \<^verbatim>\<open>None\<close>, whatever hits or summaries the body holds.
\<close>

theorem missing_error_flag_is_error:
  assumes "map_of body ''error'' = None"
  shows "(api e (length (sent w)) (search_request e q m) = Response (JObj body)
            \<longrightarrow> fst (search_patents e q m w) = Inr (JList []))
       \<and> (api e (length (sent w)) (summary_request e pid) = Response (JObj body)
            \<longrightarrow> fst (fetch_patent_summary e pid w) = Inr JNull)"
  using assms
  by (auto simp: search_patents_def fetch_patent_summary_def rate_limited_request_def
        dict_get_def py_truthy_def)

theorem missing_error_flag_is_error_witness:
  "fst (search_patents
          (env0 (reply_always (JObj [(''patents'', JList [JObj [(''patent_id'', JStr ''P1'')]]),
                                     (''g_brf_sum_texts'', JList [JObj [(''summary_text'', JStr ''Text A'')]])]))
                no_fault) ''solar panel'' 2 world0) = Inr (JList [])
   \<and> fst (fetch_patent_summary
          (env0 (reply_always (JObj [(''patents'', JList [JObj [(''patent_id'', JStr ''P1'')]]),
                                     (''g_brf_sum_texts'', JList [JObj [(''summary_text'', JStr ''Text A'')]])]))
                no_fault) (JStr ''P1'') world0) = Inr JNull"
  using missing_error_flag_is_error
      [of "[(''patents'', JList [JObj [(''patent_id'', JStr ''P1'')]]),
            (''g_brf_sum_texts'', JList [JObj [(''summary_text'', JStr ''Text A'')]])]"
          "env0 (reply_always (JObj [(''patents'', JList [JObj [(''patent_id'', JStr ''P1'')]]),
                                     (''g_brf_sum_texts'', JList [JObj [(''summary_text'', JStr ''Text A'')]])]))
                no_fault"
          world0 "''solar panel''" 2 "JStr ''P1''"]
  by (simp add: env0_def reply_always_def)

subsection \<open>The topic processor\<close>

text \<open>
  C7. When the search of a topic returns the empty list, \<open>process_topic\<close> returns 0 in
  the state the search left: the search request is the only request issued (no summary
  is fetched), the table is untouched and no transaction has run.
\<close>

theorem empty_search_short_circuit:
  assumes "search_patents e (query topic) (max_patents topic) w = (Inr (JList []), w1)"
  shows "process_topic e topic w = (Inr 0, w1)
       \<and> sent w1 = sent w @ [search_request e (query topic) (max_patents topic)]
       \<and> working w1 = working w \<and> committed w1 = committed w \<and> txn w1 = txn w"
proof -
  have "snd (search_patents e (query topic) (max_patents topic) w)
          = w\<lparr>sent := sent w @ [search_request e (query topic) (max_patents topic)]\<rparr>"
    by (simp add: search_patents_def rate_limited_request_def
          split: http_result.splits json.splits sum.splits)
  with assms have "w1 = w\<lparr>sent := sent w @ [search_request e (query topic) (max_patents topic)]\<rparr>"
    by simp
  with assms show ?thesis
    by (simp add: process_topic_def py_truthy_def)
qed

theorem empty_search_short_circuit_witness:
  "process_topic
       (env0 (reply_always (JObj [(''error'', JBool False), (''patents'', JList []),
                                  (''total_hits'', JInt 0)])) no_fault)
       \<lparr>name = ''solar'', query = ''solar panel'', max_patents = 2\<rparr> world0
     = (Inr 0,
        world0\<lparr>sent := [search_request
            (env0 (reply_always (JObj [(''error'', JBool False), (''patents'', JList []),
                                       (''total_hits'', JInt 0)])) no_fault)
            ''solar panel'' 2]\<rparr>)"
  using empty_search_short_circuit
     [of "env0 (reply_always (JObj [(''error'', JBool False), (''patents'', JList []),
                                    (''total_hits'', JInt 0)])) no_fault"
         "\<lparr>name = ''solar'', query = ''solar panel'', max_patents = 2\<rparr>" world0
         "world0\<lparr>sent := [search_request
            (env0 (reply_always (JObj [(''error'', JBool False), (''patents'', JList []),
                                       (''total_hits'', JInt 0)])) no_fault)
            ''solar panel'' 2]\<rparr>"]
  by (simp add: search_patents_def rate_limited_request_def env0_def reply_always_def world0_def
        dict_get_def py_truthy_def py_len_def)

subsection \<open>The metadata normalizer\<close>

lemma py_isspace_space: "py_isspace CHR '' ''"
  by (simp add: py_isspace_def)

lemma py_strip_trailing_space: "py_strip (s @ '' '') = py_strip s"
proof (cases "\<forall>c\<in>set s. py_isspace c")
  case True
  have a: "dropWhile py_isspace s = []"
    using True by (simp add: dropWhile_eq_Nil_conv)
  have "dropWhile py_isspace (s @ '' '') = dropWhile py_isspace '' ''"
    using True by (simp add: dropWhile_append2)
  then have b: "dropWhile py_isspace (s @ '' '') = []"
    by (simp add: py_isspace_space)
  show ?thesis by (simp only: py_strip_def a b)
next
  case False
  then obtain c where "c \<in> set s" "\<not> py_isspace c" by blast
  then have "dropWhile py_isspace (s @ '' '') = dropWhile py_isspace s @ '' ''"
    by (rule dropWhile_append1)
  then show ?thesis by (simp add: py_strip_def py_isspace_space)
qed

lemma name_part_get:
  "py_format str (dict_get kvs k (JStr [])) = name_part str kvs k"
  by (simp add: name_part_def dict_get_def py_format_def split: option.splits)

lemma inventor_names_of_obj:
  "inventor_names_of str (JObj kvs # rest) =
     (case inventor_names_of str rest of
        Inl err \<Rightarrow> Inl err
      | Inr names \<Rightarrow> Inr (full_name str (JObj kvs) # names))"
  by (simp add: full_name_def name_part_get split: sum.splits)

lemma inventor_names_of_Inr:
  "inventor_names_of str invs = Inr names \<Longrightarrow> names = map (full_name str) invs \<and> list_all is_obj invs"
proof (induction invs arbitrary: names)
  case Nil
  then show ?case by simp
next
  case (Cons a invs)
  show ?case
  proof (cases a)
    case (JObj kvs)
    with Cons.prems obtain ns where ns: "inventor_names_of str invs = Inr ns"
      and names: "names = full_name str (JObj kvs) # ns"
      by (auto simp: inventor_names_of_obj simp del: inventor_names_of.simps split: sum.splits)
    from Cons.IH [OF ns] names JObj show ?thesis by (simp add: is_obj_def)
  qed (use Cons.prems in simp_all)
qed

lemma inventor_names_of_objs:
  "list_all is_obj invs \<Longrightarrow> inventor_names_of str invs = Inr (map (full_name str) invs)"
proof (induction invs)
  case Nil
  then show ?case by simp
next
  case (Cons a invs)
  then obtain kvs where "a = JObj kvs" by (cases a) (simp_all add: is_obj_def)
  with Cons show ?case by (simp add: inventor_names_of_obj del: inventor_names_of.simps)
qed

lemma cpc_group_ids_objs:
  "list_all is_obj cs \<Longrightarrow> \<exists>ids. cpc_group_ids cs = Inr ids"
proof (induction cs)
  case Nil
  then show ?case by simp
next
  case (Cons a cs)
  then obtain kvs where "a = JObj kvs" by (cases a) (simp_all add: is_obj_def)
  with Cons show ?case by auto
qed

lemma objs_or_missing_get:
  assumes "objs_or_missing (map_of h k)"
  obtains xs where "dict_get h k (JList []) = JList xs" "list_all is_obj xs"
proof (cases "map_of h k")
  case None
  then have "dict_get h k (JList []) = JList []" by (simp add: dict_get_def)
  then show ?thesis using that by simp
next
  case (Some v)
  with assms obtain xs where "v = JList xs" "list_all is_obj xs"
    by (cases v) (simp_all add: objs_or_missing_def)
  with Some show ?thesis using that by (simp add: dict_get_def)
qed

lemma first_or_empty_objs:
  "list_all is_obj xs \<Longrightarrow> \<exists>fa. first_or_empty (JList xs) = Inr (JObj fa)"
  by (cases xs) (auto simp: first_or_empty_def py_truthy_def py_item0_def is_obj_def split: json.splits)

lemma first_wipo_field_id_objs:
  "list_all is_obj xs \<Longrightarrow> \<exists>v. first_wipo_field_id (JList xs) = Inr v"
  by (cases xs) (auto simp: first_wipo_field_id_def py_truthy_def py_item0_def is_obj_def split: json.splits)

lemma extract_hit_ok:
  assumes "hit_ok (JObj h)"
  shows "\<exists>d. extract_patent_metadata str (JObj h) = Inr d
            \<and> patent_id d = dict_get h ''patent_id'' JNull \<and> summary_text d = None"
proof -
  from assms have ok: "objs_or_missing (map_of h ''assignees'')"
      "objs_or_missing (map_of h ''cpc_current'')"
      "objs_or_missing (map_of h ''wipo'')"
      "objs_or_missing (map_of h ''inventors'')"
    by (simp_all add: hit_ok_def)
  from ok(1) obtain as where as: "dict_get h ''assignees'' (JList []) = JList as" "list_all is_obj as"
    by (rule objs_or_missing_get)
  from ok(2) obtain cs where cs: "dict_get h ''cpc_current'' (JList []) = JList cs" "list_all is_obj cs"
    by (rule objs_or_missing_get)
  from ok(3) obtain ws where ws: "dict_get h ''wipo'' (JList []) = JList ws" "list_all is_obj ws"
    by (rule objs_or_missing_get)
  from ok(4) obtain invs where invs: "dict_get h ''inventors'' (JList []) = JList invs" "list_all is_obj invs"
    by (rule objs_or_missing_get)
  from as(2) obtain fa where fa: "first_or_empty (JList as) = Inr (JObj fa)"
    using first_or_empty_objs by blast
  from cs(2) obtain ids where ids: "cpc_group_ids cs = Inr ids"
    using cpc_group_ids_objs by blast
  from ws(2) obtain wv where wv: "first_wipo_field_id (JList ws) = Inr wv"
    using first_wipo_field_id_objs by blast
  from invs(2) have names: "inventor_names_of str invs = Inr (map (full_name str) invs)"
    by (rule inventor_names_of_objs)
  show ?thesis
    by (simp add: extract_patent_metadata_def as(1) cs(1) ws(1) invs(1) fa ids wv names
          py_iter_def py_len_def)
qed

text \<open>
  C4. A hit with an empty list of assignees, of CPC entries and of WIPO fields and with
  one inventor who has a first name only is normalized without an error: no assignee
  organization, no CPC group, no WIPO field, one inventor, whose name is the first name
  stripped. Whenever the normalizer returns, \<open>inventor_count\<close> is the number of
  inventor entries and every name is \<open>full_name\<close> of its entry: first and last name
  around one space, a missing part being the empty string, stripped. A hit of the
  documented shape, nested lists missing or not, is normalized without an error.
\<close>

theorem extract_patent_metadata_defensive:
  "(map_of h ''assignees'' = Some (JList []) \<and> map_of h ''cpc_current'' = Some (JList [])
      \<and> map_of h ''wipo'' = Some (JList [])
      \<and> map_of h ''inventors'' = Some (JList [JObj [(''inventor_name_first'', JStr first)]])
    \<longrightarrow> (\<exists>d. extract_patent_metadata str (JObj h) = Inr d
            \<and> assignee_organization d = JNull \<and> cpc_groups d = [] \<and> wipo_field_id d = JNull
            \<and> inventor_count d = 1 \<and> inventor_names d = [py_strip first]))
   \<and> (\<forall>d invs. extract_patent_metadata str (JObj h) = Inr d
         \<and> map_of h ''inventors'' = Some (JList invs)
       \<longrightarrow> inventor_count d = int (length invs)
           \<and> inventor_names d = map (full_name str) invs)
   \<and> (hit_ok (JObj h) \<longrightarrow> (\<exists>d. extract_patent_metadata str (JObj h) = Inr d))"
proof -
  have A: "\<exists>d. extract_patent_metadata str (JObj h) = Inr d
            \<and> assignee_organization d = JNull \<and> cpc_groups d = [] \<and> wipo_field_id d = JNull
            \<and> inventor_count d = 1 \<and> inventor_names d = [py_strip first]"
    if a: "map_of h ''assignees'' = Some (JList []) \<and> map_of h ''cpc_current'' = Some (JList [])
      \<and> map_of h ''wipo'' = Some (JList [])
      \<and> map_of h ''inventors'' = Some (JList [JObj [(''inventor_name_first'', JStr first)]])"
  proof -
    have "py_strip (first @ '' '') = py_strip first" by (rule py_strip_trailing_space)
    with a show ?thesis
      by (simp add: extract_patent_metadata_def dict_get_def first_or_empty_def
          first_wipo_field_id_def py_truthy_def py_iter_def py_len_def py_format_def)
  qed
  have B: "inventor_count d = int (length invs) \<and> inventor_names d = map (full_name str) invs"
    if a: "extract_patent_metadata str (JObj h) = Inr d
         \<and> map_of h ''inventors'' = Some (JList invs)" for d invs
  proof -
    from a have g: "dict_get h ''inventors'' (JList []) = JList invs" by (simp add: dict_get_def)
    from a obtain names where n: "inventor_names_of str invs = Inr names"
       and d: "inventor_names d = names" "inventor_count d = int (length invs)"
      by (auto simp: extract_patent_metadata_def g py_iter_def py_len_def split: sum.splits json.splits)
    from inventor_names_of_Inr [OF n] d show ?thesis by simp
  qed
  have C: "\<exists>d. extract_patent_metadata str (JObj h) = Inr d" if "hit_ok (JObj h)"
    using extract_hit_ok [OF that, of str] by blast
  from A B C show ?thesis by blast
qed

theorem extract_patent_metadata_defensive_witness:
  "(\<exists>d. extract_patent_metadata (\<lambda>_. [])
           (JObj [(''patent_id'', JStr ''P1''), (''assignees'', JList []), (''cpc_current'', JList []),
                  (''wipo'', JList []),
                  (''inventors'', JList [JObj [(''inventor_name_first'', JStr ''First'')]])]) = Inr d
        \<and> assignee_organization d = JNull \<and> cpc_groups d = [] \<and> wipo_field_id d = JNull
        \<and> inventor_count d = 1 \<and> inventor_names d = [''First''])"
  using extract_patent_metadata_defensive
     [of "[(''patent_id'', JStr ''P1''), (''assignees'', JList []), (''cpc_current'', JList []),
                  (''wipo'', JList []),
                  (''inventors'', JList [JObj [(''inventor_name_first'', JStr ''First'')]])]"
         "''First''" "\<lambda>_. []"]
  by (simp add: py_strip_def py_isspace_def)

subsection \<open>The run\<close>

lemma main_loop_process_all:
  "main_loop e ts acc w =
     (case process_all e ts w of
        (Inl err, w1) \<Rightarrow> (Inl err, w1)
      | (Inr ns, w1) \<Rightarrow> (Inr (acc + sum_list ns), w1))"
  by (induction ts arbitrary: acc w) (auto split: prod.splits sum.splits)

lemma process_all_length:
  "process_all e ts w = (Inr ns, w1) \<Longrightarrow> length ns = length ts"
  by (induction ts arbitrary: ns w) (auto split: prod.splits sum.splits)

text \<open>
  C9. \<open>main\<close> processes the configured topics in the order of the list, each in the
  state its predecessor left, and returns the sum of the counts the topics return (or
  the first error one of them raises); there is one count for every topic.
\<close>

theorem main_sums_topic_counts:
  "main e w =
     (case process_all e (search_topics e) w of
        (Inl err, w1) \<Rightarrow> (Inl err, w1)
      | (Inr counts, w1) \<Rightarrow> (Inr (sum_list counts), w1))
   \<and> (\<forall>counts w1. process_all e (search_topics e) w = (Inr counts, w1)
        \<longrightarrow> length counts = length (search_topics e))"
  by (simp add: main_def main_loop_process_all process_all_length split: prod.splits sum.splits)

lemma two_topics_counts:
  "fst (process_all ((env0 two_hit_api no_fault)\<lparr>search_topics := [solar, wind]\<rparr>) [solar, wind] world0)
     = Inr [2, 0]"
  by (simp add: process_topic_def search_patents_def rate_limited_request_def env0_def
        two_hit_api_def no_fault_def world0_def solar_def wind_def sample_hit_def
        dict_get_def py_truthy_def py_iter_def process_patent_def py_slice_to_def
        extract_patent_metadata_def first_or_empty_def first_wipo_field_id_def py_len_def
        fetch_patent_summary_def py_item0_def insert_patent_def conn_commit_def
        execute_upsert_def search_request_def summary_request_def)

theorem main_sums_topic_counts_witness:
  "fst (main ((env0 two_hit_api no_fault)\<lparr>search_topics := [solar, wind]\<rparr>) world0) = Inr 2
   \<and> fst (process_all ((env0 two_hit_api no_fault)\<lparr>search_topics := [solar, wind]\<rparr>) [solar, wind] world0)
       = Inr [2, 0]"
proof -
  obtain w1 where
    "process_all ((env0 two_hit_api no_fault)\<lparr>search_topics := [solar, wind]\<rparr>) [solar, wind] world0
       = (Inr [2, 0], w1)"
    using two_topics_counts
    by (cases "process_all ((env0 two_hit_api no_fault)\<lparr>search_topics := [solar, wind]\<rparr>) [solar, wind] world0") simp
  then show ?thesis
    using main_sums_topic_counts [of "(env0 two_hit_api no_fault)\<lparr>search_topics := [solar, wind]\<rparr>" world0]
    by simp
qed

subsection \<open>The storage upserter\<close>

lemma execute_upsert_conflict:
  assumes "patent_id r \<noteq> JNull" "\<exists>x\<in>set t. patent_id x = patent_id r"
  shows "execute_upsert r t =
           map (\<lambda>x. if patent_id x = patent_id r
                     then x\<lparr>summary_text := summary_text r, search_topic := search_topic r\<rparr>
                     else x) t"
  using assms by (simp add: execute_upsert_def)

lemma update_keeps_ids:
  "map patent_id (map (\<lambda>x. if patent_id x = k
                              then x\<lparr>summary_text := a, search_topic := b\<rparr> else x) t)
     = map patent_id t"
  by (induction t) simp_all

lemma execute_upsert_map_ids:
  assumes "patent_id r \<noteq> JNull" "\<exists>x\<in>set t. patent_id x = patent_id r"
  shows "map patent_id (execute_upsert r t) = map patent_id t"
  by (subst execute_upsert_conflict [OF assms]) (rule update_keeps_ids)

lemma execute_upsert_ids:
  "patent_id ` set (execute_upsert r t) = insert (patent_id r) (patent_id ` set t)"
proof (cases "patent_id r \<noteq> JNull \<and> (\<exists>x\<in>set t. patent_id x = patent_id r)")
  case True
  then have "map patent_id (execute_upsert r t) = map patent_id t"
    by (blast intro: execute_upsert_map_ids)
  then have "set (map patent_id (execute_upsert r t)) = set (map patent_id t)"
    by (rule arg_cong)
  then have "patent_id ` set (execute_upsert r t) = patent_id ` set t"
    by (simp only: set_map)
  moreover have "patent_id r \<in> patent_id ` set t"
  proof -
    from True obtain x where x: "x \<in> set t" "patent_id x = patent_id r" by blast
    from x(1) have "patent_id x \<in> patent_id ` set t" by (rule imageI)
    with x(2) show ?thesis by simp
  qed
  ultimately show ?thesis by (simp only: insert_absorb)
next
  case False
  then have "execute_upsert r t = t @ [r]" by (simp add: execute_upsert_def)
  then show ?thesis by simp
qed

lemma execute_upsert_distinct:
  assumes "patent_id r \<noteq> JNull" "distinct (map patent_id t)"
  shows "distinct (map patent_id (execute_upsert r t))"
proof (cases "\<exists>x\<in>set t. patent_id x = patent_id r")
  case True
  with assms show ?thesis by (simp add: execute_upsert_map_ids)
next
  case False
  with assms show ?thesis by (auto simp: execute_upsert_def)
qed

lemma execute_upsert_idem:
  assumes "patent_id r \<noteq> JNull"
  shows "execute_upsert r (execute_upsert r t) = execute_upsert r t"
proof -
  let ?f = "\<lambda>x. if patent_id x = patent_id r
                 then x\<lparr>summary_text := summary_text r, search_topic := search_topic r\<rparr>
                 else x"
  have ex: "\<exists>x\<in>set (execute_upsert r t). patent_id x = patent_id r"
    using execute_upsert_ids [of r t] by (metis image_iff insertI1)
  have "execute_upsert r (execute_upsert r t) = map ?f (execute_upsert r t)"
    using assms ex by (rule execute_upsert_conflict)
  also have "\<dots> = execute_upsert r t"
  proof (cases "\<exists>x\<in>set t. patent_id x = patent_id r")
    case True
    then have "execute_upsert r t = map ?f t"
      using assms by (simp add: execute_upsert_conflict)
    then show ?thesis by simp
  next
    case False
    then have t: "execute_upsert r t = t @ [r]" by (simp add: execute_upsert_def)
    from False have "map ?f t = t" by (simp add: map_idI)
    with t show ?thesis by simp
  qed
  finally show ?thesis .
qed

lemma insert_then_commit:
  assumes "summary_text d = Some s" "db_fault e (txn w) = NoFault"
  shows "insert_patent e d topic w
           = (Inr (), w\<lparr>working := execute_upsert (d\<lparr>search_topic := Some topic\<rparr>) (working w)\<rparr>)"
    and "conn_commit e (w\<lparr>working := execute_upsert (d\<lparr>search_topic := Some topic\<rparr>) (working w)\<rparr>)
           = (Inr (), w\<lparr>working := execute_upsert (d\<lparr>search_topic := Some topic\<rparr>) (working w),
                          committed := execute_upsert (d\<lparr>search_topic := Some topic\<rparr>) (working w),
                          txn := Suc (txn w)\<rparr>)"
  using assms by (simp_all add: insert_patent_def conn_commit_def)

text \<open>
  C2. When the table holds a row with the identifier of the record, an upsert that the
  database accepts (\<open>insert_patent\<close>, then the commit) adds no row; in every row with
  that identifier it sets \<open>summary_text\<close> and \<open>search_topic\<close> to the record's and
  leaves the eleven other columns (identifier, title, date, the assignee columns, CPC
  groups, WIPO field, inventor count and names, raw data) as stored; every other row is
  unchanged.
\<close>

theorem upsert_conflict_updates_summary_and_topic:
  assumes "summary_text d = Some s" and "patent_id d \<noteq> JNull"
    and "\<exists>x\<in>set (committed w). patent_id x = patent_id d"
    and "db_fault e (txn w) = NoFault" and "working w = committed w"
  shows "\<exists>w1 w2. insert_patent e d topic w = (Inr (), w1) \<and> conn_commit e w1 = (Inr (), w2)
     \<and> length (committed w2) = length (committed w)
     \<and> (\<forall>i<length (committed w).
           patent_id (committed w2 ! i) = patent_id (committed w ! i)
         \<and> patent_title (committed w2 ! i) = patent_title (committed w ! i)
         \<and> patent_date (committed w2 ! i) = patent_date (committed w ! i)
         \<and> assignee_organization (committed w2 ! i) = assignee_organization (committed w ! i)
         \<and> assignee_country (committed w2 ! i) = assignee_country (committed w ! i)
         \<and> assignee_type (committed w2 ! i) = assignee_type (committed w ! i)
         \<and> cpc_groups (committed w2 ! i) = cpc_groups (committed w ! i)
         \<and> wipo_field_id (committed w2 ! i) = wipo_field_id (committed w ! i)
         \<and> inventor_count (committed w2 ! i) = inventor_count (committed w ! i)
         \<and> inventor_names (committed w2 ! i) = inventor_names (committed w ! i)
         \<and> raw_data (committed w2 ! i) = raw_data (committed w ! i)
         \<and> (patent_id (committed w ! i) = patent_id d
              \<longrightarrow> summary_text (committed w2 ! i) = Some s
                  \<and> search_topic (committed w2 ! i) = Some topic)
         \<and> (patent_id (committed w ! i) \<noteq> patent_id d
              \<longrightarrow> committed w2 ! i = committed w ! i))"
proof -
  let ?d = "d\<lparr>search_topic := Some topic\<rparr>"
  let ?t = "execute_upsert ?d (committed w)"
  let ?w1 = "w\<lparr>working := ?t\<rparr>"
  let ?w2 = "w\<lparr>working := ?t, committed := ?t, txn := Suc (txn w)\<rparr>"
  have i: "insert_patent e d topic w = (Inr (), ?w1)" and c: "conn_commit e ?w1 = (Inr (), ?w2)"
    using insert_then_commit [OF assms(1) assms(4), of topic] assms(5) by simp_all
  have t: "?t = map (\<lambda>x. if patent_id x = patent_id ?d
                     then x\<lparr>summary_text := summary_text ?d, search_topic := search_topic ?d\<rparr>
                     else x) (committed w)"
    using assms(2,3) by (intro execute_upsert_conflict) simp_all
  have "committed ?w2 = ?t" by simp
  with t have r: "committed ?w2 = map (\<lambda>x. if patent_id x = patent_id d
                     then x\<lparr>summary_text := Some s, search_topic := Some topic\<rparr>
                     else x) (committed w)"
    using assms(1) by simp
  show ?thesis
    apply (rule exI [of _ ?w1], rule exI [of _ ?w2])
    apply (simp only: i c r)
    apply simp
    done
qed

theorem upsert_conflict_updates_summary_and_topic_witness:
  "\<exists>w1 w2. insert_patent (env0 (\<lambda>k r. RequestException) no_fault) refetched_row ''roof'' one_row_world
               = (Inr (), w1)
     \<and> conn_commit (env0 (\<lambda>k r. RequestException) no_fault) w1 = (Inr (), w2)
     \<and> length (committed w2) = 1
     \<and> patent_title (committed w2 ! 0) = JStr ''Solar panel mount''
     \<and> cpc_groups (committed w2 ! 0) = [JStr ''H02S20/30'']
     \<and> inventor_names (committed w2 ! 0) = [''Ada Lovelace'']
     \<and> summary_text (committed w2 ! 0) = Some (JStr ''Text A'')
     \<and> search_topic (committed w2 ! 0) = Some ''roof''"
  using upsert_conflict_updates_summary_and_topic
     [of refetched_row "JStr ''Text A''" one_row_world "env0 (\<lambda>k r. RequestException) no_fault" "''roof''"]
  by (simp add: refetched_row_def stored_row_def one_row_world_def env0_def no_fault_def) blast

text \<open>
  C8. The upsert is idempotent: when the database accepts both, a second upsert of the
  same record under the same topic leaves the table as the first one left it, and a
  table without two rows of one identifier stays so.
\<close>

theorem upsert_idempotent:
  assumes "summary_text d = Some s" and "patent_id d \<noteq> JNull"
    and "db_fault e (txn w) = NoFault" and "db_fault e (Suc (txn w)) = NoFault"
    and "working w = committed w"
  shows "\<exists>w1 w2 w3 w4.
       insert_patent e d topic w = (Inr (), w1) \<and> conn_commit e w1 = (Inr (), w2)
     \<and> insert_patent e d topic w2 = (Inr (), w3) \<and> conn_commit e w3 = (Inr (), w4)
     \<and> committed w4 = committed w2 \<and> working w4 = working w2
     \<and> (distinct (map patent_id (committed w)) \<longrightarrow> distinct (map patent_id (committed w4)))"
proof -
  let ?d = "d\<lparr>search_topic := Some topic\<rparr>"
  let ?t = "execute_upsert ?d (committed w)"
  let ?w1 = "w\<lparr>working := ?t\<rparr>"
  let ?w2 = "w\<lparr>working := ?t, committed := ?t, txn := Suc (txn w)\<rparr>"
  let ?w3 = "?w2\<lparr>working := execute_upsert ?d (working ?w2)\<rparr>"
  let ?w4 = "?w2\<lparr>working := execute_upsert ?d (working ?w2),
                  committed := execute_upsert ?d (working ?w2), txn := Suc (txn ?w2)\<rparr>"
  have i1: "insert_patent e d topic w = (Inr (), ?w1)" and c1: "conn_commit e ?w1 = (Inr (), ?w2)"
    using insert_then_commit [OF assms(1) assms(3), of topic] assms(5) by simp_all
  have f2: "db_fault e (txn ?w2) = NoFault" using assms(4) by simp
  have i2: "insert_patent e d topic ?w2 = (Inr (), ?w3)" and c2: "conn_commit e ?w3 = (Inr (), ?w4)"
    using insert_then_commit [OF assms(1) f2, of topic] by simp_all
  have id: "patent_id ?d \<noteq> JNull" using assms(2) by simp
  have same: "execute_upsert ?d (working ?w2) = ?t"
    using execute_upsert_idem [OF id, of "committed w"] by simp
  have dist: "distinct (map patent_id ?t)" if "distinct (map patent_id (committed w))"
    using execute_upsert_distinct [OF id that] .
  have "committed ?w4 = committed ?w2" "working ?w4 = working ?w2"
       "distinct (map patent_id (committed w)) \<longrightarrow> distinct (map patent_id (committed ?w4))"
    using same dist by simp_all
  with i1 c1 i2 c2 show ?thesis by blast
qed

theorem upsert_idempotent_witness:
  "\<exists>w1 w2 w3 w4.
       insert_patent (env0 (\<lambda>k r. RequestException) no_fault) refetched_row ''roof'' world0 = (Inr (), w1)
     \<and> conn_commit (env0 (\<lambda>k r. RequestException) no_fault) w1 = (Inr (), w2)
     \<and> insert_patent (env0 (\<lambda>k r. RequestException) no_fault) refetched_row ''roof'' w2 = (Inr (), w3)
     \<and> conn_commit (env0 (\<lambda>k r. RequestException) no_fault) w3 = (Inr (), w4)
     \<and> committed w4 = committed w2 \<and> working w4 = working w2
     \<and> distinct (map patent_id (committed w4))"
  using upsert_idempotent
     [of refetched_row "JStr ''Text A''" "env0 (\<lambda>k r. RequestException) no_fault" world0 "''roof''"]
  by (simp add: refetched_row_def world0_def env0_def no_fault_def)

subsection \<open>Storage failures in the topic processor\<close>

lemma stored_hits_Nil: "stored_hits e t [] = []"
  by (simp add: stored_hits_def)

lemma stored_hits_Cons:
  "stored_hits e t (p # ps) =
     (if db_fault e t = NoFault then p # stored_hits e (Suc t) ps else stored_hits e (Suc t) ps)"
proof -
  have "t < t + length (p # ps)" by simp
  then have "[t ..< t + length (p # ps)] = t # [Suc t ..< t + length (p # ps)]"
    by (rule upt_conv_Cons)
  then have "[t ..< t + length (p # ps)] = t # [Suc t ..< Suc t + length ps]"
    by simp
  then show ?thesis by (simp add: stored_hits_def)
qed

lemma fetch_reply_ok:
  assumes "reply_ok (api e (length (sent w)) (summary_request e pid))"
  shows "\<exists>s. fetch_patent_summary e pid w = (Inr s, w\<lparr>sent := sent w @ [summary_request e pid]\<rparr>)
            \<and> text_or_null s"
proof (cases "api e (length (sent w)) (summary_request e pid)")
  case RequestException
  then show ?thesis
    by (simp add: fetch_patent_summary_def rate_limited_request_def text_or_null_def)
next
  case (Response data)
  with assms obtain kvs where data: "data = JObj kvs"
    and objs: "objs_or_missing (map_of kvs ''g_brf_sum_texts'')"
    and first: "first_text_ok (dict_get kvs ''g_brf_sum_texts'' JNull)"
    by (cases data) (simp_all add: reply_ok_def)
  show ?thesis
  proof (cases "py_truthy (dict_get kvs ''error'' (JBool True))
                \<or> \<not> py_truthy (dict_get kvs ''g_brf_sum_texts'' JNull)")
    case True
    with Response data show ?thesis
      by (simp add: fetch_patent_summary_def rate_limited_request_def text_or_null_def)
  next
    case False
    then have tr: "py_truthy (dict_get kvs ''g_brf_sum_texts'' JNull)" by simp
    from objs tr obtain x xs where l: "dict_get kvs ''g_brf_sum_texts'' JNull = JList (x # xs)"
      and "is_obj x"
      by (cases "map_of kvs ''g_brf_sum_texts''")
         (auto simp: objs_or_missing_def dict_get_def py_truthy_def neq_Nil_conv split: json.splits)
    then obtain item where x: "x = JObj item" by (cases x) (simp_all add: is_obj_def)
    from first l x have "text_or_null (dict_get item ''summary_text'' JNull)"
      by (simp add: first_text_ok_def py_item0_def)
    with Response data False l x show ?thesis
      by (simp add: fetch_patent_summary_def rate_limited_request_def py_item0_def)
  qed
qed

lemma text_or_null_len:
  "text_or_null s \<Longrightarrow> \<exists>n. (if py_truthy s then py_len s else Inr 0) = Inr n"
  by (cases s) (simp_all add: text_or_null_def py_len_def py_truthy_def)


lemma title_ok_slice:
  "title_ok (map_of h ''patent_title'')
     \<Longrightarrow> \<exists>v. py_slice_to 60 (dict_get h ''patent_title'' (JStr ''No title'')) = Inr v"
  by (cases "map_of h ''patent_title''")
     (auto simp: title_ok_def dict_get_def py_slice_to_def split: json.splits)

lemma process_patent_ok:
  assumes "hit_ok p"
    and "reply_ok (api e (length (sent w)) (summary_request e (hit_id p)))"
    and "working w = committed w"
  shows "\<exists>w1 d. process_patent e topic p w = (Inr (db_fault e (txn w) = NoFault), w1)
     \<and> length (sent w1) = Suc (length (sent w)) \<and> txn w1 = Suc (txn w)
     \<and> working w1 = committed w1 \<and> patent_id d = hit_id p
     \<and> committed w1 = (if db_fault e (txn w) = NoFault
                        then execute_upsert d (committed w) else committed w)"
proof -
  from assms(1) obtain h where p: "p = JObj h" by (cases p) (simp_all add: hit_ok_def)
  have pid: "hit_id p = dict_get h ''patent_id'' JNull" by (simp add: p hit_id_def)
  from assms(1) p have "title_ok (map_of h ''patent_title'')" by (simp add: hit_ok_def)
  then obtain v where sl: "py_slice_to 60 (dict_get h ''patent_title'' (JStr ''No title'')) = Inr v"
    using title_ok_slice by blast
  from assms(1) p obtain d0 where ex: "extract_patent_metadata (py_str e) (JObj h) = Inr d0"
    and d0: "patent_id d0 = dict_get h ''patent_id'' JNull"
    using extract_hit_ok [of h "py_str e"] by blast
  let ?w' = "w\<lparr>sent := sent w @ [summary_request e (dict_get h ''patent_id'' JNull)]\<rparr>"
  from assms(2) pid obtain s where
    fe: "fetch_patent_summary e (dict_get h ''patent_id'' JNull) w = (Inr s, ?w')"
    and tn: "text_or_null s"
    using fetch_reply_ok [of e w "dict_get h ''patent_id'' JNull"] by auto
  from tn obtain n where ln: "(if py_truthy s then py_len s else Inr 0) = Inr n"
    using text_or_null_len by blast
  let ?d = "d0\<lparr>summary_text := Some s, search_topic := Some topic\<rparr>"
  have idd: "patent_id ?d = hit_id p" by (simp add: d0 pid)
  show ?thesis
  proof (cases "db_fault e (txn w)")
    case NoFault
    let ?w1 = "?w'\<lparr>working := execute_upsert ?d (working ?w'),
                     committed := execute_upsert ?d (working ?w'), txn := Suc (txn w)\<rparr>"
    from NoFault have "process_patent e topic p w = (Inr True, ?w1)"
      by (simp add: process_patent_def p sl ex fe ln insert_patent_def conn_commit_def)
    with NoFault assms(3) idd show ?thesis
      by (intro exI [of _ ?w1] exI [of _ ?d]) simp
  next
    case ExecuteFault
    let ?w1 = "?w'\<lparr>working := committed w, txn := Suc (txn w)\<rparr>"
    from ExecuteFault have "process_patent e topic p w = (Inr False, ?w1)"
      by (simp add: process_patent_def p sl ex fe ln insert_patent_def conn_rollback_def)
    with ExecuteFault idd show ?thesis
      by (intro exI [of _ ?w1] exI [of _ ?d]) simp
  next
    case CommitFault
    let ?w1 = "?w'\<lparr>working := committed w, txn := Suc (txn w)\<rparr>"
    from CommitFault have "process_patent e topic p w = (Inr False, ?w1)"
      by (simp add: process_patent_def p sl ex fe ln insert_patent_def conn_commit_def
            conn_rollback_def)
    with CommitFault idd show ?thesis
      by (intro exI [of _ ?w1] exI [of _ ?d]) simp
  qed
qed


lemma process_patents_ok:
  assumes "\<forall>i<length ps. hit_ok (ps ! i)
              \<and> reply_ok (api e (length (sent w) + i) (summary_request e (hit_id (ps ! i))))"
    and "working w = committed w"
  shows "\<exists>w1. process_patents e topic ps n w
                 = (Inr (n + int (length (stored_hits e (txn w) ps))), w1)
     \<and> patent_id ` set (committed w1)
         = patent_id ` set (committed w) \<union> hit_id ` set (stored_hits e (txn w) ps)
     \<and> working w1 = committed w1 \<and> txn w1 = txn w + length ps
     \<and> length (sent w1) = length (sent w) + length ps"
  using assms
proof (induction ps arbitrary: n w)
  case Nil
  then show ?case by (simp add: stored_hits_Nil)
next
  case (Cons p ps)
  from Cons.prems(1) [rule_format, of 0]
  have p0: "hit_ok p" "reply_ok (api e (length (sent w)) (summary_request e (hit_id p)))"
    by simp_all
  from process_patent_ok [OF p0 Cons.prems(2), of topic]
  obtain w1 d where
    body: "process_patent e topic p w = (Inr (db_fault e (txn w) = NoFault), w1)"
    and sent1: "length (sent w1) = Suc (length (sent w))" and txn1: "txn w1 = Suc (txn w)"
    and clean1: "working w1 = committed w1" and idd: "patent_id d = hit_id p"
    and com1: "committed w1 = (if db_fault e (txn w) = NoFault
                               then execute_upsert d (committed w) else committed w)"
    by blast
  have rest: "\<forall>i<length ps. hit_ok (ps ! i)
              \<and> reply_ok (api e (length (sent w1) + i) (summary_request e (hit_id (ps ! i))))"
  proof (intro allI impI)
    fix i assume "i < length ps"
    with Cons.prems(1) [rule_format, of "Suc i"] sent1
    show "hit_ok (ps ! i)
            \<and> reply_ok (api e (length (sent w1) + i) (summary_request e (hit_id (ps ! i))))"
      by simp
  qed
  let ?n = "if db_fault e (txn w) = NoFault then n + 1 else n"
  from Cons.IH [OF rest clean1, of ?n]
  obtain w2 where
    loop: "process_patents e topic ps ?n w1
             = (Inr (?n + int (length (stored_hits e (txn w1) ps))), w2)"
    and ids2: "patent_id ` set (committed w2)
                 = patent_id ` set (committed w1) \<union> hit_id ` set (stored_hits e (txn w1) ps)"
    and clean2: "working w2 = committed w2" and txn2: "txn w2 = txn w1 + length ps"
    and sent2: "length (sent w2) = length (sent w1) + length ps"
    by blast
  have ids1: "patent_id ` set (committed w1)
                = patent_id ` set (committed w)
                  \<union> (if db_fault e (txn w) = NoFault then {hit_id p} else {})"
    using com1 idd by (simp add: execute_upsert_ids)
  have run: "process_patents e topic (p # ps) n w
           = (Inr (n + int (length (stored_hits e (txn w) (p # ps)))), w2)"
    using body loop txn1 by (simp add: stored_hits_Cons)
  have ids: "patent_id ` set (committed w2)
         = patent_id ` set (committed w) \<union> hit_id ` set (stored_hits e (txn w) (p # ps))"
    using ids1 ids2 txn1 by (auto simp: stored_hits_Cons)
  from run ids clean2 txn2 txn1 sent2 sent1 show ?case
    by (intro exI [of _ w2]) simp
qed

text \<open>
  C3. Let the search of a topic return a non-empty list of hits of the documented shape,
  and let every summary request get a reply of the documented shape. Then
  \<open>process_topic\<close> raises nothing and returns the number of hits whose transaction the
  database did not fault, whether the fault was raised by the statement or by the
  commit. A faulted transaction is rolled back and the loop goes on: in the end no
  transaction is open, every hit has had its own transaction and its own summary
  request, and the identifiers in the committed table are those that were there before
  and those of the hits that were not faulted.
\<close>

theorem storage_failure_is_isolated:
  assumes "api e (length (sent w)) (search_request e (query topic) (max_patents topic))
             = Response (JObj body)"
    and "\<not> py_truthy (dict_get body ''error'' (JBool True))"
    and "map_of body ''patents'' = Some (JList hits)" and "hits \<noteq> []"
    and "\<forall>i<length hits. hit_ok (hits ! i)
              \<and> reply_ok (api e (Suc (length (sent w)) + i) (summary_request e (hit_id (hits ! i))))"
    and "working w = committed w"
  shows "\<exists>w1. process_topic e topic w = (Inr (int (length (stored_hits e (txn w) hits))), w1)
     \<and> patent_id ` set (committed w1)
         = patent_id ` set (committed w) \<union> hit_id ` set (stored_hits e (txn w) hits)
     \<and> working w1 = committed w1 \<and> txn w1 = txn w + length hits
     \<and> length (sent w1) = Suc (length (sent w)) + length hits"
proof -
  let ?w0 = "w\<lparr>sent := sent w @ [search_request e (query topic) (max_patents topic)]\<rparr>"
  have search: "search_patents e (query topic) (max_patents topic) w = (Inr (JList hits), ?w0)"
    using assms(1,2,3)
    by (simp add: search_patents_def rate_limited_request_def dict_get_def py_len_def)
  have topic: "process_topic e topic w = process_patents e (name topic) hits 0 ?w0"
    using assms(4) by (simp add: process_topic_def search py_truthy_def py_iter_def)
  have ok: "\<forall>i<length hits. hit_ok (hits ! i)
              \<and> reply_ok (api e (length (sent ?w0) + i) (summary_request e (hit_id (hits ! i))))"
    using assms(5) by simp
  have clean: "working ?w0 = committed ?w0" using assms(6) by simp
  from process_patents_ok [OF ok clean, of "name topic" 0]
  show ?thesis by (simp add: topic)
qed

lemma sample_hit_ok: "hit_ok (sample_hit pid)"
  by (simp add: sample_hit_def hit_ok_def title_ok_def objs_or_missing_def is_obj_def)

theorem storage_failure_is_isolated_witness:
  "\<exists>w1. process_topic (env0 three_hit_api second_fails) solar world0 = (Inr 2, w1)
     \<and> patent_id ` set (committed w1) = {JStr ''P1'', JStr ''P3''}
     \<and> working w1 = committed w1 \<and> txn w1 = 3 \<and> length (sent w1) = 4"
proof -
  have hyp: "\<forall>i<length [sample_hit ''P1'', sample_hit ''P2'', sample_hit ''P3''].
       hit_ok ([sample_hit ''P1'', sample_hit ''P2'', sample_hit ''P3''] ! i)
     \<and> reply_ok (api (env0 three_hit_api second_fails) (Suc (length (sent world0)) + i)
          (summary_request (env0 three_hit_api second_fails)
             (hit_id ([sample_hit ''P1'', sample_hit ''P2'', sample_hit ''P3''] ! i))))"
    by (simp add: All_less_Suc sample_hit_ok env0_def three_hit_api_def reply_ok_def
          objs_or_missing_def is_obj_def first_text_ok_def py_item0_def dict_get_def
          text_or_null_def)
  have st: "stored_hits (env0 three_hit_api second_fails) 0
              [sample_hit ''P1'', sample_hit ''P2'', sample_hit ''P3'']
            = [sample_hit ''P1'', sample_hit ''P3'']"
    by (simp add: stored_hits_Cons stored_hits_Nil env0_def second_fails_def)
  have ids: "hit_id (sample_hit ''P1'') = JStr ''P1''" "hit_id (sample_hit ''P3'') = JStr ''P3''"
    by (simp_all add: hit_id_def sample_hit_def dict_get_def)
  have h1: "api (env0 three_hit_api second_fails) (length (sent world0))
              (search_request (env0 three_hit_api second_fails) (query solar) (max_patents solar))
            = Response (JObj [(''error'', JBool False),
                 (''patents'', JList [sample_hit ''P1'', sample_hit ''P2'', sample_hit ''P3'']),
                 (''total_hits'', JInt 3)])"
    by (simp add: env0_def three_hit_api_def world0_def)
  have h2: "\<not> py_truthy (dict_get [(''error'', JBool False),
                 (''patents'', JList [sample_hit ''P1'', sample_hit ''P2'', sample_hit ''P3'']),
                 (''total_hits'', JInt 3)] ''error'' (JBool True))"
    by (simp add: dict_get_def py_truthy_def)
  have h3: "map_of [(''error'', JBool False),
                 (''patents'', JList [sample_hit ''P1'', sample_hit ''P2'', sample_hit ''P3'']),
                 (''total_hits'', JInt 3)] ''patents''
            = Some (JList [sample_hit ''P1'', sample_hit ''P2'', sample_hit ''P3''])"
    by simp
  have h4: "[sample_hit ''P1'', sample_hit ''P2'', sample_hit ''P3''] \<noteq> []" by simp
  have h6: "working world0 = committed world0" by (simp add: world0_def)
  have t0: "txn world0 = 0" "length (sent world0) = 0" "committed world0 = []"
    by (simp_all add: world0_def)
  from storage_failure_is_isolated [OF h1 h2 h3 h4 hyp h6]
  show ?thesis by (simp add: st ids t0 eval_nat_numeral)
qed

end
